theory Spec2Isabelle
  imports Main
begin

section \<open>The service base class of \<^verbatim>\<open>src/service/base.py\<close>\<close>

text \<open>
  The module defines the enumeration \<^verbatim>\<open>ServiceState\<close> and the class
  \<^verbatim>\<open>ServiceBase\<close>: a state field, a service id, and methods that change the
  state, log, and talk to a monitor over two sockets. The embedding below keeps the
  object's fields in a record and makes every effect of a method explicit: the methods
  take the world before the call and return the outcome of the call together with the
  world after it.
\<close>

subsection \<open>Data\<close>

text \<open>\<^verbatim>\<open>class ServiceState(Enum)\<close>, lines 23 to 28.\<close>

datatype ServiceState = init | starting | started | stopping | stopped

text \<open>The \<^verbatim>\<open>.value\<close> of a member, as \<^verbatim>\<open>status\<close> returns it.\<close>

fun value_of :: "ServiceState \<Rightarrow> string" where
  "value_of init = ''init''"
| "value_of starting = ''starting''"
| "value_of started = ''started''"
| "value_of stopping = ''stopping''"
| "value_of stopped = ''stopped''"

text \<open>
  \<^verbatim>\<open>str\<close> of a member, which is what the \<^verbatim>\<open>%s\<close> of a log format prints:
  the class name, a dot, the member's name.
\<close>

definition str_of :: "ServiceState \<Rightarrow> string" where
  "str_of S = ''ServiceState.'' @ value_of S"

text \<open>
  Values decoded from JSON, and the contents of the dictionaries that are sent as JSON.
  A dictionary is an association list in insertion order; lookup takes the first binding
  of a key, and the dictionaries Python builds have one binding for each key. JSON numbers
  with a fraction are left out: no operation of the class looks inside a number.
\<close>

datatype jval =
    JNull
  | JBool bool
  | JInt int
  | JStr string
  | JList "jval list"
  | JObj "(string \<times> jval) list"

type_synonym dict = "(string \<times> jval) list"

text \<open>
  Python is dynamically typed, so \<^verbatim>\<open>_set_state\<close> can be handed any value: a
  member of the enumeration, a member of some other \<^verbatim>\<open>Enum\<close> class (named here by
  its \<^verbatim>\<open>str\<close>), or a value that is no \<^verbatim>\<open>Enum\<close> member at all.
\<close>

datatype pyval = StateV ServiceState | OtherEnumV string | StrV string | IntV int | NoneV

text \<open>
  What \<^verbatim>\<open>state in ServiceState\<close> does is decided by the interpreter, and it changed
  between releases of CPython:
  \<^item> up to 3.7 the test is false for everything that is not a member (3.7 adds a
    deprecation warning for a value that is no \<^verbatim>\<open>Enum\<close> member);
  \<^item> from 3.8 to 3.11 the test itself raises \<^verbatim>\<open>TypeError\<close> for a value that is no
    \<^verbatim>\<open>Enum\<close> member, and is false for a member of another \<^verbatim>\<open>Enum\<close> class.

  From 3.12 on the test is also true for a plain value that equals the value of a member,
  such as the string \<^verbatim>\<open>init\<close>, and \<^verbatim>\<open>_set_state\<close> then stores that string in the
  field. The state field of this development holds members only, which is what the field
  holds on every interpreter up to 3.11; the interpreters from 3.12 on are outside it.
\<close>

datatype python = Python_upto_3_7 | Python_3_8_to_3_11

datatype error =
    RuntimeError string
  | KeyError string
  | TypeError
  | JSONDecodeError

text \<open>
  The three ways the test of line 48 can end: true (and then the value is the member
  given), false, or with an exception of its own.
\<close>

datatype membership = Member ServiceState | NotMember | TestRaises error

fun in_ServiceState :: "python \<Rightarrow> pyval \<Rightarrow> membership" where
  "in_ServiceState py (StateV S) = Member S"
| "in_ServiceState py (OtherEnumV n) = NotMember"
| "in_ServiceState Python_upto_3_7 v = NotMember"
| "in_ServiceState Python_3_8_to_3_11 v = TestRaises TypeError"

text \<open>
  How a call ends: it returns, it raises, or it is suspended in a receive for which no
  message is left (the two loops never return).
\<close>

datatype outcome = Returned | Raised error | Blocked

datatype callee =
    M_set_state | M_start | M_stop | M_pub_msg | M_sub_msg
  | M_on_control_msg | M_heartbeat | M_run

datatype socket = reqclient | subclient

text \<open>
  The effects of the class, in the order they happen: an assignment to
  \<^verbatim>\<open>self.state\<close>, a log record, the entry into a method, a string sent on a socket,
  a receive on a socket, a sleep.
\<close>

datatype event =
    Assign ServiceState
  | LogInfo string
  | LogError string
  | Call callee
  | SendString socket string
  | RecvString socket
  | Sleep nat

text \<open>Lines 33 to 37: the fields of the object that the methods read and write.\<close>

record ServiceBase =
  state :: ServiceState
  sid :: string

text \<open>
  The world of a call: the object, the interpreter that runs the code, the dictionaries
  that callers own (by reference, so that a mutation made through one reference is seen
  through every other), and the effects so far, oldest first.
\<close>

record world = ServiceBase +
  interp :: python
  heap :: "nat \<Rightarrow> dict"
  trace :: "event list"

text \<open>
  \<^verbatim>\<open>ServiceBase('servicebase')\<close> on an interpreter between 3.8 and 3.11, with no
  dictionary allocated and nothing done yet.
\<close>

definition new_service :: world where
  "new_service =
     \<lparr>state = init, sid = ''servicebase'', interp = Python_3_8_to_3_11,
      heap = (\<lambda>_. []), trace = []\<rparr>"

subsection \<open>Effects\<close>

definition emit :: "event \<Rightarrow> world \<Rightarrow> world" where
  "emit e w = w\<lparr>trace := trace w @ [e]\<rparr>"

text \<open>\<^verbatim>\<open>self.state = S\<close>\<close>

definition assign :: "ServiceState \<Rightarrow> world \<Rightarrow> world" where
  "assign S w = emit (Assign S) (w\<lparr>state := S\<rparr>)"

text \<open>Sequencing of two calls: an exception or a suspension of the first ends both.\<close>

definition and_then ::
  "outcome \<times> world \<Rightarrow> (world \<Rightarrow> outcome \<times> world) \<Rightarrow> outcome \<times> world" where
  "and_then r f = (case r of (Returned, w) \<Rightarrow> f w | (oc, w) \<Rightarrow> (oc, w))"

subsection \<open>The state machine\<close>

text \<open>
  Lines 47 to 53. An exception of the test of line 48 leaves the method before either
  branch is taken.
\<close>

definition set_state :: "pyval \<Rightarrow> world \<Rightarrow> outcome \<times> world" where
  "set_state new_state w0 =
     (let w = emit (Call M_set_state) w0 in
      case in_ServiceState (interp w) new_state of
        Member S \<Rightarrow>
          (Returned, emit (LogInfo (''set server state to '' @ str_of S)) (assign S w))
      | NotMember \<Rightarrow>
          (Raised (RuntimeError ''invalid server state, need in ServiceState''),
           emit (LogError ''invalid server state, need in ServiceState'') w)
      | TestRaises e \<Rightarrow> (Raised e, w))"

text \<open>Lines 66 to 68: a read of the field.\<close>

definition status :: "world \<Rightarrow> string" where
  "status w = value_of (state w)"

text \<open>Lines 70 to 74: the two hooks have an empty body in the base class.\<close>

definition pub_msg :: "world \<Rightarrow> outcome \<times> world" where
  "pub_msg w = (Returned, emit (Call M_pub_msg) w)"

definition sub_msg :: "world \<Rightarrow> outcome \<times> world" where
  "sub_msg w = (Returned, emit (Call M_sub_msg) w)"

text \<open>
  Lines 94 to 102. The state is assigned directly, not through \<^verbatim>\<open>_set_state\<close>, and
  the two calls of the hooks are comments in the source.
\<close>

definition run :: "world \<Rightarrow> outcome \<times> world" where
  "run w0 =
     (let w = emit (Call M_run) w0 in
      if state w = started
      then (Returned,
            emit (LogError (''tried to run service, but state is '' @ str_of (state w))) w)
      else (Returned, assign started w))"

text \<open>Lines 55 to 59.\<close>

definition start :: "world \<Rightarrow> outcome \<times> world" where
  "start w0 =
     and_then (set_state (StateV starting) (emit (Call M_start) w0))
       (\<lambda>w. run (emit (LogInfo ''service starting'') w))"

text \<open>Lines 61 to 64.\<close>

definition stop :: "world \<Rightarrow> outcome \<times> world" where
  "stop w0 =
     and_then (set_state (StateV stopped) (emit (Call M_stop) w0))
       (\<lambda>w. (Returned, emit (LogInfo ''service stopped'') w))"

subsection \<open>The control listener\<close>

text \<open>
  \<^verbatim>\<open>msg[key]\<close> on a decoded JSON value: a dictionary raises \<^verbatim>\<open>KeyError\<close> for a
  missing key, and every other JSON value raises \<^verbatim>\<open>TypeError\<close> for a string
  subscript.
\<close>

fun getitem :: "jval \<Rightarrow> string \<Rightarrow> error + jval" where
  "getitem (JObj d) k = (case map_of d k of None \<Rightarrow> Inl (KeyError k) | Some v \<Rightarrow> Inr v)"
| "getitem _ k = Inl TypeError"

text \<open>
  Lines 80 to 84, the body of one iteration once the message is decoded. Comparing a
  decoded value with a string is true exactly for that string.
\<close>

definition on_control_msg_body :: "jval \<Rightarrow> world \<Rightarrow> outcome \<times> world" where
  "on_control_msg_body msg w =
     (case getitem msg ''sid'' of
        Inl e \<Rightarrow> (Raised e, w)
      | Inr s \<Rightarrow>
          if s = JStr (sid w)
          then (case getitem msg ''action'' of
                  Inl e \<Rightarrow> (Raised e, w)
                | Inr a \<Rightarrow>
                    if a = JStr ''stop'' then stop w
                    else if a = JStr ''start'' then run w
                    else (Returned, w))
          else (Returned, w))"

text \<open>
  Lines 76 to 84. The loop is driven by the strings the socket delivers; when none is left
  the call stays suspended in the receive. \<^verbatim>\<open>json.loads\<close> is a parameter: it gives
  \<open>None\<close> for a string that is not JSON.
\<close>

fun on_control_msg_loop ::
  "(string \<Rightarrow> jval option) \<Rightarrow> string list \<Rightarrow> world \<Rightarrow> outcome \<times> world" where
  "on_control_msg_loop loads [] w = (Blocked, emit (RecvString subclient) w)"
| "on_control_msg_loop loads (m # ms) w =
     (case loads m of
        None \<Rightarrow> (Raised JSONDecodeError, emit (RecvString subclient) w)
      | Some msg \<Rightarrow>
          and_then (on_control_msg_body msg (emit (RecvString subclient) w))
            (on_control_msg_loop loads ms))"

definition on_control_msg ::
  "(string \<Rightarrow> jval option) \<Rightarrow> string list \<Rightarrow> world \<Rightarrow> outcome \<times> world" where
  "on_control_msg loads inbox w = on_control_msg_loop loads inbox (emit (Call M_on_control_msg) w)"

subsection \<open>The heartbeat\<close>

text \<open>\<^verbatim>\<open>d[k] = v\<close>: an existing key keeps its place, a new key goes to the end.\<close>

fun dict_setitem :: "dict \<Rightarrow> string \<Rightarrow> jval \<Rightarrow> dict" where
  "dict_setitem [] k v = [(k, v)]"
| "dict_setitem ((k', v') # d) k v =
     (if k' = k then (k, v) # d else (k', v') # dict_setitem d k v)"

text \<open>\<^verbatim>\<open>d.update(other)\<close>: the items of \<open>other\<close> are stored one by one, in order.\<close>

fun dict_update :: "dict \<Rightarrow> dict \<Rightarrow> dict" where
  "dict_update d [] = d"
| "dict_update d ((k, v) # other) = dict_update (dict_setitem d k v) other"

text \<open>The dictionary literal of line 89.\<close>

definition heartbeat_fields :: "world \<Rightarrow> dict" where
  "heartbeat_fields w =
     [(''sid'', JStr (sid w)), (''type'', JStr ''heartbeat''), (''state'', JStr (value_of (state w)))]"

text \<open>
  Lines 89 and 90: the caller's dictionary, reached through the reference \<open>infos\<close>, is
  updated where it is, then serialised and sent. \<^verbatim>\<open>json.dumps\<close> is a parameter.
\<close>

definition heartbeat_send :: "(dict \<Rightarrow> string) \<Rightarrow> nat \<Rightarrow> world \<Rightarrow> world" where
  "heartbeat_send dumps infos w =
     (let w1 = w\<lparr>heap := (heap w)(infos := dict_update (heap w infos) (heartbeat_fields w))\<rparr>
      in emit (SendString reqclient (dumps (heap w1 infos))) w1)"

text \<open>Lines 89 to 92: one iteration for which a reply arrives.\<close>

definition heartbeat_iter :: "(dict \<Rightarrow> string) \<Rightarrow> nat \<Rightarrow> world \<Rightarrow> world" where
  "heartbeat_iter dumps infos w =
     emit (Sleep 10) (emit (RecvString reqclient) (heartbeat_send dumps infos w))"

text \<open>
  Lines 86 to 92. The loop is driven by the replies the socket delivers; the value of
  \<^verbatim>\<open>recv_string\<close> is not bound to a name. When no reply is left the call stays
  suspended in the receive, after the send.
\<close>

fun heartbeat_loop ::
  "(dict \<Rightarrow> string) \<Rightarrow> string list \<Rightarrow> nat \<Rightarrow> world \<Rightarrow> outcome \<times> world" where
  "heartbeat_loop dumps [] infos w =
     (Blocked, emit (RecvString reqclient) (heartbeat_send dumps infos w))"
| "heartbeat_loop dumps (r # rs) infos w =
     heartbeat_loop dumps rs infos (heartbeat_iter dumps infos w)"

definition heartbeat ::
  "(dict \<Rightarrow> string) \<Rightarrow> string list \<Rightarrow> nat \<Rightarrow> world \<Rightarrow> outcome \<times> world" where
  "heartbeat dumps replies infos w = heartbeat_loop dumps replies infos (emit (Call M_heartbeat) w)"

subsection \<open>Reading a trace\<close>

text \<open>The number of entries into a method.\<close>

definition calls :: "callee \<Rightarrow> event list \<Rightarrow> nat" where
  "calls m t = count_list t (Call m)"

text \<open>The entries into the worker-body hooks.\<close>

definition hook_calls :: "event list \<Rightarrow> nat" where
  "hook_calls t = calls M_pub_msg t + calls M_sub_msg t"

fun is_log :: "event \<Rightarrow> bool" where
  "is_log (LogInfo _) = True"
| "is_log (LogError _) = True"
| "is_log _ = False"

fun is_assign :: "event \<Rightarrow> bool" where
  "is_assign (Assign _) = True"
| "is_assign _ = False"

subsection \<open>Concrete inputs\<close>

text \<open>A control command as the monitor publishes it, decoded.\<close>

definition cmd :: "string \<Rightarrow> string \<Rightarrow> jval" where
  "cmd s a = JObj [(''sid'', JStr s), (''action'', JStr a)]"

text \<open>
  A decoder for three strings on the wire, named here by what they carry: the commands
  \<^verbatim>\<open>stop\<close>, \<^verbatim>\<open>start\<close> and \<^verbatim>\<open>restart\<close> for the service id \<^verbatim>\<open>servicebase\<close>.
  Every other string is not JSON.
\<close>

definition loads_example :: "string \<Rightarrow> jval option" where
  "loads_example m =
     map_of [(''wire-stop'', cmd ''servicebase'' ''stop''),
             (''wire-start'', cmd ''servicebase'' ''start''),
             (''wire-restart'', cmd ''servicebase'' ''restart'')] m"

section \<open>What each method does to the world\<close>

text \<open>
  Each method is a straight line of effects, so its result can be written out in full:
  the world after the call is the world before it with the state field and the trace
  changed.
\<close>

lemma set_state_member:
  "set_state (StateV S) w =
     (Returned, w\<lparr>state := S,
        trace := trace w @
          [Call M_set_state, Assign S, LogInfo (''set server state to '' @ str_of S)]\<rparr>)"
  by (simp add: set_state_def assign_def emit_def)

lemma set_state_not_member:
  "in_ServiceState (interp w) v = NotMember \<Longrightarrow>
   set_state v w =
     (Raised (RuntimeError ''invalid server state, need in ServiceState''),
      w\<lparr>trace := trace w @
        [Call M_set_state, LogError ''invalid server state, need in ServiceState'']\<rparr>)"
  by (simp add: set_state_def emit_def)

lemma set_state_test_raises:
  "in_ServiceState (interp w) v = TestRaises e \<Longrightarrow>
   set_state v w = (Raised e, w\<lparr>trace := trace w @ [Call M_set_state]\<rparr>)"
  by (simp add: set_state_def emit_def)

text \<open>
  On every interpreter a member is stored and \<^verbatim>\<open>status()\<close> then gives its value; a
  call that does not return leaves the state field as it was.
\<close>

lemma set_state_member_status:
  "fst (set_state (StateV S) w) = Returned
   \<and> status (snd (set_state (StateV S) w)) = value_of S"
  by (simp add: set_state_member status_def)

lemma set_state_raise_keeps_state:
  "fst (set_state v w) \<noteq> Returned \<Longrightarrow> state (snd (set_state v w)) = state w"
  by (cases "in_ServiceState (interp w) v")
     (simp_all add: set_state_def emit_def assign_def)

text \<open>
  On an interpreter up to 3.7 every value that is not a member takes the \<^verbatim>\<open>else\<close>
  branch; from 3.8 on only a member of another \<^verbatim>\<open>Enum\<close> class does.
\<close>

lemma set_state_old_interpreter:
  "interp w = Python_upto_3_7 \<Longrightarrow> (\<forall>S. v \<noteq> StateV S) \<Longrightarrow>
   fst (set_state v w) = Raised (RuntimeError ''invalid server state, need in ServiceState'')
   \<and> state (snd (set_state v w)) = state w"
  by (cases v) (simp_all add: set_state_not_member)

lemma set_state_other_enum:
  "fst (set_state (OtherEnumV n) w)
     = Raised (RuntimeError ''invalid server state, need in ServiceState'')
   \<and> state (snd (set_state (OtherEnumV n) w)) = state w"
  by (simp add: set_state_not_member)

lemma run_guard_hit:
  "state w = started \<Longrightarrow>
   run w = (Returned, w\<lparr>trace := trace w @
      [Call M_run, LogError ''tried to run service, but state is ServiceState.started'']\<rparr>)"
  by (simp add: run_def emit_def str_of_def)

lemma run_guard_miss:
  "state w \<noteq> started \<Longrightarrow>
   run w = (Returned, w\<lparr>state := started, trace := trace w @ [Call M_run, Assign started]\<rparr>)"
  by (simp add: run_def assign_def emit_def)

lemma stop_eq:
  "stop w = (Returned, w\<lparr>state := stopped, trace := trace w @
      [Call M_stop, Call M_set_state, Assign stopped,
       LogInfo ''set server state to ServiceState.stopped'', LogInfo ''service stopped'']\<rparr>)"
  by (simp add: stop_def and_then_def set_state_member emit_def str_of_def)

lemma start_eq:
  "start w = (Returned, w\<lparr>state := started, trace := trace w @
      [Call M_start, Call M_set_state, Assign starting,
       LogInfo ''set server state to ServiceState.starting'', LogInfo ''service starting'',
       Call M_run, Assign started]\<rparr>)"
  by (simp add: start_def and_then_def set_state_member emit_def str_of_def run_guard_miss)

text \<open>
  The listener hands each decoded message to the body of the iteration and goes on with
  the next one when the body returns.
\<close>

lemma on_control_msg_loop_Cons:
  "loads m = Some msg \<Longrightarrow>
   on_control_msg_loop loads (m # ms) w =
     and_then (on_control_msg_body msg (emit (RecvString subclient) w))
       (on_control_msg_loop loads ms)"
  by simp

text \<open>
  A \<^verbatim>\<open>stop\<close> command for this worker, received while it is \<^verbatim>\<open>started\<close>, leaves
  it \<^verbatim>\<open>stopped\<close>, with the listener back in its receive.
\<close>

lemma remote_stop_example:
  "loads m = Some (cmd ''servicebase'' ''stop'') \<Longrightarrow>
   fst (on_control_msg loads [m] (snd (start new_service))) = Blocked
   \<and> state (snd (on_control_msg loads [m] (snd (start new_service)))) = stopped"
  by (simp add: on_control_msg_def on_control_msg_body_def cmd_def start_eq stop_eq
      and_then_def emit_def new_service_def)

text \<open>Storing under a key is an update of the lookup function.\<close>

lemma map_of_dict_setitem: "map_of (dict_setitem d k v) = (map_of d)(k \<mapsto> v)"
  by (induction d) auto

lemma map_of_heartbeat_fields:
  "map_of (dict_update d (heartbeat_fields w)) =
     (map_of d)(''sid'' \<mapsto> JStr (sid w), ''type'' \<mapsto> JStr ''heartbeat'',
                ''state'' \<mapsto> JStr (value_of (state w)))"
  by (simp add: heartbeat_fields_def map_of_dict_setitem)

lemma heartbeat_send_eq:
  "heartbeat_send dumps infos w =
     w\<lparr>heap := (heap w)(infos := dict_update (heap w infos) (heartbeat_fields w)),
        trace := trace w @
          [SendString reqclient (dumps (dict_update (heap w infos) (heartbeat_fields w)))]\<rparr>"
  by (simp add: heartbeat_send_def emit_def)

lemma heartbeat_iter_eq:
  "heartbeat_iter dumps infos w =
     w\<lparr>heap := (heap w)(infos := dict_update (heap w infos) (heartbeat_fields w)),
        trace := trace w @
          [SendString reqclient (dumps (dict_update (heap w infos) (heartbeat_fields w))),
           RecvString reqclient, Sleep 10]\<rparr>"
  by (simp add: heartbeat_iter_def heartbeat_send_eq emit_def)

text \<open>
  However many replies arrive, the dictionary behind \<open>infos\<close> ends with the three keys
  bound to the worker's values and every other key as the caller left it: the update of
  a later iteration writes the same three bindings again.
\<close>

lemma heartbeat_loop_heap:
  "map_of (heap (snd (heartbeat_loop dumps rs infos w)) infos) =
     (map_of (heap w infos))(''sid'' \<mapsto> JStr (sid w), ''type'' \<mapsto> JStr ''heartbeat'',
                ''state'' \<mapsto> JStr (value_of (state w)))"
proof (induction rs arbitrary: w)
  case Nil
  have "heap (snd (heartbeat_loop dumps [] infos w)) infos =
          dict_update (heap w infos) (heartbeat_fields w)"
    by (simp add: heartbeat_send_eq emit_def)
  then show ?case
    by (simp only: map_of_heartbeat_fields)
next
  case (Cons r rs)
  have st: "state (heartbeat_iter dumps infos w) = state w"
    "sid (heartbeat_iter dumps infos w) = sid w"
    by (simp_all add: heartbeat_iter_eq)
  have "heap (heartbeat_iter dumps infos w) infos =
          dict_update (heap w infos) (heartbeat_fields w)"
    by (simp add: heartbeat_iter_eq)
  then have hp: "map_of (heap (heartbeat_iter dumps infos w) infos) =
     (map_of (heap w infos))(''sid'' \<mapsto> JStr (sid w), ''type'' \<mapsto> JStr ''heartbeat'',
                ''state'' \<mapsto> JStr (value_of (state w)))"
    by (simp only: map_of_heartbeat_fields)
  show ?case
    unfolding heartbeat_loop.simps Cons.IH st hp
    by (rule ext) simp
qed

text \<open>The dictionaries behind other references, and the object, are not touched.\<close>

lemma heartbeat_loop_frame:
  "r \<noteq> infos \<Longrightarrow> heap (snd (heartbeat_loop dumps rs infos w)) r = heap w r"
  by (induction rs arbitrary: w) (simp_all add: heartbeat_iter_eq heartbeat_send_eq emit_def)

lemma heartbeat_loop_state:
  "state (snd (heartbeat_loop dumps rs infos w)) = state w"
  by (induction rs arbitrary: w) (simp_all add: heartbeat_iter_eq heartbeat_send_eq emit_def)

text \<open>
  An example: a caller's own \<^verbatim>\<open>sid\<close> entry is replaced, its other entry stays, and the
  two new keys are appended.
\<close>

lemma heartbeat_overwrites_example:
  "heap (heartbeat_iter dumps 0
      (new_service\<lparr>heap := (\<lambda>_. [(''name'', JStr ''feed''), (''sid'', JStr ''mine'')])\<rparr>)) 0
   = [(''name'', JStr ''feed''), (''sid'', JStr ''servicebase''),
      (''type'', JStr ''heartbeat''), (''state'', JStr ''init'')]"
  by (simp add: heartbeat_iter_eq heartbeat_fields_def new_service_def)

text \<open>
  The boot path: \<^verbatim>\<open>start\<close> on a new service passes through \<^verbatim>\<open>starting\<close> and
  ends in \<^verbatim>\<open>started\<close>.
\<close>

lemma boot_states:
  "filter is_assign (trace (snd (start new_service))) = [Assign starting, Assign started]"
  by (simp add: start_eq new_service_def)

section \<open>The claims\<close>

text \<open>
  C1. For every member \<open>S\<close> of the enumeration, \<^verbatim>\<open>_set_state(S)\<close> returns and
  \<^verbatim>\<open>status()\<close> then gives the string value of \<open>S\<close>; for a value that is not a
  member, \<^verbatim>\<open>_set_state\<close> is to raise \<^verbatim>\<open>RuntimeError\<close> and leave the state field
  as it was. The \<^verbatim>\<open>else\<close> branch of lines 51 to 53 is there to do the second half, but
  on an interpreter between 3.8 and 3.11 the string \<^verbatim>\<open>running\<close> never reaches it: the
  test of line 48 raises \<^verbatim>\<open>TypeError\<close>, so the call ends with that exception, not with
  \<^verbatim>\<open>RuntimeError\<close>, and without the error record in the log. The state field is still
  \<^verbatim>\<open>init\<close>.
\<close>

theorem set_state_string_typeerror:
  "interp new_service = Python_3_8_to_3_11
   \<and> set_state (StrV ''running'') new_service
       = (Raised TypeError, new_service\<lparr>trace := [Call M_set_state]\<rparr>)
   \<and> fst (set_state (StrV ''running'') new_service)
       \<noteq> Raised (RuntimeError ''invalid server state, need in ServiceState'')
   \<and> filter is_log (trace (snd (set_state (StrV ''running'') new_service))) = []
   \<and> state (snd (set_state (StrV ''running'') new_service)) = init"
  by (simp add: set_state_def emit_def new_service_def)

text \<open>
  C2. When the state is already \<^verbatim>\<open>started\<close>, \<^verbatim>\<open>run()\<close> returns with the state
  still \<^verbatim>\<open>started\<close> and without entering \<^verbatim>\<open>pub_msg\<close> or \<^verbatim>\<open>sub_msg\<close>: all it
  does is log the error, and neither the caller's dictionaries nor the service id change.
\<close>

theorem run_started_noop:
  assumes "state w = started"
  shows "fst (run w) = Returned
     \<and> state (snd (run w)) = started
     \<and> hook_calls (trace (snd (run w))) = hook_calls (trace w)
     \<and> trace (snd (run w)) = trace w @
          [Call M_run, LogError ''tried to run service, but state is ServiceState.started'']
     \<and> heap (snd (run w)) = heap w \<and> sid (snd (run w)) = sid w"
  using assms by (simp add: run_guard_hit hook_calls_def calls_def)

theorem run_started_noop_witness:
  "state (snd (start new_service)) = started
   \<and> fst (run (snd (start new_service))) = Returned
   \<and> state (snd (run (snd (start new_service)))) = started
   \<and> hook_calls (trace (snd (run (snd (start new_service)))))
       = hook_calls (trace (snd (start new_service)))"
proof -
  have h: "state (snd (start new_service)) = started"
    by (simp add: start_eq)
  from h run_started_noop [OF h] show ?thesis by auto
qed

text \<open>
  C3, as stated: from \<^verbatim>\<open>init\<close>, \<^verbatim>\<open>starting\<close> or \<^verbatim>\<open>stopped\<close>, one \<^verbatim>\<open>run()\<close>
  sets the state to \<^verbatim>\<open>started\<close> and enters the worker-body hook exactly once. On a new
  service the state does become \<^verbatim>\<open>started\<close>, but no hook is entered: the two calls are
  comments in the base class.
\<close>

theorem run_hook_once_counterexample:
  "\<not> (state new_service \<in> {init, starting, stopped} \<longrightarrow>
        state (snd (run new_service)) = started
        \<and> hook_calls (trace (snd (run new_service))) = hook_calls (trace new_service) + 1)"
  by (simp add: run_def assign_def emit_def new_service_def hook_calls_def calls_def)

text \<open>
  C3, amended: from \<^verbatim>\<open>init\<close>, \<^verbatim>\<open>starting\<close> or \<^verbatim>\<open>stopped\<close>, one \<^verbatim>\<open>run()\<close>
  returns with the state \<^verbatim>\<open>started\<close>, having assigned it once, and the base class
  enters neither \<^verbatim>\<open>pub_msg\<close> nor \<^verbatim>\<open>sub_msg\<close>.
\<close>

theorem run_transition:
  assumes "state w \<in> {init, starting, stopped}"
  shows "fst (run w) = Returned
     \<and> state (snd (run w)) = started
     \<and> trace (snd (run w)) = trace w @ [Call M_run, Assign started]
     \<and> hook_calls (trace (snd (run w))) = hook_calls (trace w)"
proof -
  from assms have "state w \<noteq> started" by auto
  then show ?thesis
    by (simp add: run_guard_miss hook_calls_def calls_def)
qed

theorem run_transition_witness:
  "state new_service \<in> {init, starting, stopped}
   \<and> fst (run new_service) = Returned
   \<and> state (snd (run new_service)) = started
   \<and> trace (snd (run new_service)) = trace new_service @ [Call M_run, Assign started]
   \<and> hook_calls (trace (snd (run new_service))) = hook_calls (trace new_service)"
proof -
  have h: "state new_service \<in> {init, starting, stopped}"
    by (simp add: new_service_def)
  from h run_transition [OF h] show ?thesis by auto
qed

text \<open>
  C4. Whatever the state before, \<^verbatim>\<open>stop()\<close> returns with the state \<^verbatim>\<open>stopped\<close>,
  and the only assignment it makes to the state field is that of \<^verbatim>\<open>stopped\<close>:
  \<^verbatim>\<open>stopping\<close> is never stored on the way.
\<close>

theorem stop_sets_stopped:
  "fst (stop w) = Returned
   \<and> state (snd (stop w)) = stopped
   \<and> trace (snd (stop w)) = trace w @
        [Call M_stop, Call M_set_state, Assign stopped,
         LogInfo ''set server state to ServiceState.stopped'', LogInfo ''service stopped'']
   \<and> filter is_assign (drop (length (trace w)) (trace (snd (stop w)))) = [Assign stopped]"
  by (simp add: stop_eq)

text \<open>
  C5. For a received control command whose \<^verbatim>\<open>sid\<close> is this worker's, the listener
  receives the string, decodes it, dispatches once and goes on with the next message.
  The action \<^verbatim>\<open>stop\<close> makes it do exactly what one \<^verbatim>\<open>stop()\<close> does: with that one
  message in the inbox the listener enters \<^verbatim>\<open>stop\<close> once, and neither \<^verbatim>\<open>run\<close> nor
  \<^verbatim>\<open>start\<close>. The action \<^verbatim>\<open>start\<close> makes it do exactly what one \<^verbatim>\<open>run()\<close> does:
  one entry into \<^verbatim>\<open>run\<close>, none into \<^verbatim>\<open>start\<close> or \<^verbatim>\<open>stop\<close>, and no assignment of
  \<^verbatim>\<open>starting\<close>. Any other action enters none of the three and leaves the state, and
  all of the world but the record of the receive, as it was.
\<close>

theorem control_msg_for_self:
  assumes "loads m = Some msg"
    and "getitem msg ''sid'' = Inr (JStr (sid w))"
    and "getitem msg ''action'' = Inr a"
  shows "(a = JStr ''stop'' \<longrightarrow>
            on_control_msg_body msg w = stop w
          \<and> calls M_stop (trace (snd (on_control_msg_body msg w))) = calls M_stop (trace w) + 1
          \<and> calls M_run (trace (snd (on_control_msg_body msg w))) = calls M_run (trace w)
          \<and> calls M_start (trace (snd (on_control_msg_body msg w))) = calls M_start (trace w)
          \<and> on_control_msg_loop loads (m # ms) w =
              on_control_msg_loop loads ms (snd (stop (emit (RecvString subclient) w)))
          \<and> trace (snd (on_control_msg loads [m] w)) = trace w @
              [Call M_on_control_msg, RecvString subclient,
               Call M_stop, Call M_set_state, Assign stopped,
               LogInfo ''set server state to ServiceState.stopped'', LogInfo ''service stopped'',
               RecvString subclient]
          \<and> calls M_stop (trace (snd (on_control_msg loads [m] w))) = calls M_stop (trace w) + 1
          \<and> calls M_run (trace (snd (on_control_msg loads [m] w))) = calls M_run (trace w)
          \<and> calls M_start (trace (snd (on_control_msg loads [m] w))) = calls M_start (trace w))
       \<and> (a = JStr ''start'' \<longrightarrow>
            on_control_msg_body msg w = run w
          \<and> calls M_run (trace (snd (on_control_msg_body msg w))) = calls M_run (trace w) + 1
          \<and> calls M_stop (trace (snd (on_control_msg_body msg w))) = calls M_stop (trace w)
          \<and> calls M_start (trace (snd (on_control_msg_body msg w))) = calls M_start (trace w)
          \<and> count_list (trace (snd (on_control_msg_body msg w))) (Assign starting)
              = count_list (trace w) (Assign starting)
          \<and> on_control_msg_loop loads (m # ms) w =
              on_control_msg_loop loads ms (snd (run (emit (RecvString subclient) w)))
          \<and> calls M_run (trace (snd (on_control_msg loads [m] w))) = calls M_run (trace w) + 1
          \<and> calls M_stop (trace (snd (on_control_msg loads [m] w))) = calls M_stop (trace w)
          \<and> calls M_start (trace (snd (on_control_msg loads [m] w))) = calls M_start (trace w)
          \<and> count_list (trace (snd (on_control_msg loads [m] w))) (Assign starting)
              = count_list (trace w) (Assign starting))
       \<and> (a \<noteq> JStr ''stop'' \<and> a \<noteq> JStr ''start'' \<longrightarrow>
            on_control_msg_body msg w = (Returned, w)
          \<and> on_control_msg_loop loads (m # ms) w =
              on_control_msg_loop loads ms (emit (RecvString subclient) w)
          \<and> snd (on_control_msg loads [m] w) = w\<lparr>trace := trace w @
              [Call M_on_control_msg, RecvString subclient, RecvString subclient]\<rparr>)"
proof -
  let ?r = "emit (RecvString subclient) w"
  let ?c = "emit (RecvString subclient) (emit (Call M_on_control_msg) w)"
  have body: "\<And>u. sid u = sid w \<Longrightarrow> on_control_msg_body msg u =
      (if a = JStr ''stop'' then stop u else if a = JStr ''start'' then run u else (Returned, u))"
    using assms(2,3) by (simp add: on_control_msg_body_def)
  have sids: "sid w = sid w" "sid ?r = sid w" "sid ?c = sid w"
    by (simp_all add: emit_def)
  have stop_calls: "\<And>u.
      calls M_stop (trace (snd (stop u))) = calls M_stop (trace u) + 1
    \<and> calls M_run (trace (snd (stop u))) = calls M_run (trace u)
    \<and> calls M_start (trace (snd (stop u))) = calls M_start (trace u)"
    by (simp add: stop_eq calls_def)
  have run_calls: "\<And>u.
      calls M_run (trace (snd (run u))) = calls M_run (trace u) + 1
    \<and> calls M_stop (trace (snd (run u))) = calls M_stop (trace u)
    \<and> calls M_start (trace (snd (run u))) = calls M_start (trace u)
    \<and> count_list (trace (snd (run u))) (Assign starting) = count_list (trace u) (Assign starting)"
  proof -
    fix u :: world
    show "calls M_run (trace (snd (run u))) = calls M_run (trace u) + 1
      \<and> calls M_stop (trace (snd (run u))) = calls M_stop (trace u)
      \<and> calls M_start (trace (snd (run u))) = calls M_start (trace u)
      \<and> count_list (trace (snd (run u))) (Assign starting) = count_list (trace u) (Assign starting)"
      by (cases "state u = started") (simp_all add: run_guard_hit run_guard_miss calls_def)
  qed
  have run_returns: "\<And>u. fst (run u) = Returned"
    by (simp add: run_def Let_def)
  have loop: "on_control_msg_loop loads (m # ms) w =
      and_then (on_control_msg_body msg ?r) (on_control_msg_loop loads ms)"
    using assms(1) by simp
  have one: "snd (on_control_msg loads [m] w) =
      (case on_control_msg_body msg ?c of
         (Returned, u) \<Rightarrow> emit (RecvString subclient) u | (oc, u) \<Rightarrow> u)"
    using assms(1)
    by (simp add: on_control_msg_def and_then_def split: prod.splits outcome.splits)
  have c_calls: "calls M_stop (trace ?c) = calls M_stop (trace w)"
    "calls M_run (trace ?c) = calls M_run (trace w)"
    "calls M_start (trace ?c) = calls M_start (trace w)"
    "count_list (trace ?c) (Assign starting) = count_list (trace w) (Assign starting)"
    by (simp_all add: emit_def calls_def)
  have after: "\<And>x u. calls x (trace (emit (RecvString subclient) u)) = calls x (trace u)"
    "\<And>u. count_list (trace (emit (RecvString subclient) u)) (Assign starting)
          = count_list (trace u) (Assign starting)"
    by (simp_all add: emit_def calls_def)
  have stop_case: "a = JStr ''stop'' \<longrightarrow>
            on_control_msg_body msg w = stop w
          \<and> calls M_stop (trace (snd (on_control_msg_body msg w))) = calls M_stop (trace w) + 1
          \<and> calls M_run (trace (snd (on_control_msg_body msg w))) = calls M_run (trace w)
          \<and> calls M_start (trace (snd (on_control_msg_body msg w))) = calls M_start (trace w)
          \<and> on_control_msg_loop loads (m # ms) w =
              on_control_msg_loop loads ms (snd (stop (emit (RecvString subclient) w)))
          \<and> trace (snd (on_control_msg loads [m] w)) = trace w @
              [Call M_on_control_msg, RecvString subclient,
               Call M_stop, Call M_set_state, Assign stopped,
               LogInfo ''set server state to ServiceState.stopped'', LogInfo ''service stopped'',
               RecvString subclient]
          \<and> calls M_stop (trace (snd (on_control_msg loads [m] w))) = calls M_stop (trace w) + 1
          \<and> calls M_run (trace (snd (on_control_msg loads [m] w))) = calls M_run (trace w)
          \<and> calls M_start (trace (snd (on_control_msg loads [m] w))) = calls M_start (trace w)"
  proof
    assume st: "a = JStr ''stop''"
    have b: "on_control_msg_body msg w = stop w" "on_control_msg_body msg ?r = stop ?r"
      "on_control_msg_body msg ?c = stop ?c"
      using st body sids by simp_all
    have l: "on_control_msg_loop loads (m # ms) w = on_control_msg_loop loads ms (snd (stop ?r))"
      unfolding loop b by (simp add: stop_eq and_then_def)
    have o: "snd (on_control_msg loads [m] w) = emit (RecvString subclient) (snd (stop ?c))"
      unfolding one b by (simp add: stop_eq)
    have t: "trace (snd (on_control_msg loads [m] w)) = trace w @
              [Call M_on_control_msg, RecvString subclient,
               Call M_stop, Call M_set_state, Assign stopped,
               LogInfo ''set server state to ServiceState.stopped'', LogInfo ''service stopped'',
               RecvString subclient]"
      unfolding o by (simp add: stop_eq emit_def)
    show "on_control_msg_body msg w = stop w
          \<and> calls M_stop (trace (snd (on_control_msg_body msg w))) = calls M_stop (trace w) + 1
          \<and> calls M_run (trace (snd (on_control_msg_body msg w))) = calls M_run (trace w)
          \<and> calls M_start (trace (snd (on_control_msg_body msg w))) = calls M_start (trace w)
          \<and> on_control_msg_loop loads (m # ms) w =
              on_control_msg_loop loads ms (snd (stop (emit (RecvString subclient) w)))
          \<and> trace (snd (on_control_msg loads [m] w)) = trace w @
              [Call M_on_control_msg, RecvString subclient,
               Call M_stop, Call M_set_state, Assign stopped,
               LogInfo ''set server state to ServiceState.stopped'', LogInfo ''service stopped'',
               RecvString subclient]
          \<and> calls M_stop (trace (snd (on_control_msg loads [m] w))) = calls M_stop (trace w) + 1
          \<and> calls M_run (trace (snd (on_control_msg loads [m] w))) = calls M_run (trace w)
          \<and> calls M_start (trace (snd (on_control_msg loads [m] w))) = calls M_start (trace w)"
      unfolding t unfolding b(1) using l stop_calls [of w]
      by (simp add: calls_def)
  qed
  have start_case: "a = JStr ''start'' \<longrightarrow>
            on_control_msg_body msg w = run w
          \<and> calls M_run (trace (snd (on_control_msg_body msg w))) = calls M_run (trace w) + 1
          \<and> calls M_stop (trace (snd (on_control_msg_body msg w))) = calls M_stop (trace w)
          \<and> calls M_start (trace (snd (on_control_msg_body msg w))) = calls M_start (trace w)
          \<and> count_list (trace (snd (on_control_msg_body msg w))) (Assign starting)
              = count_list (trace w) (Assign starting)
          \<and> on_control_msg_loop loads (m # ms) w =
              on_control_msg_loop loads ms (snd (run (emit (RecvString subclient) w)))
          \<and> calls M_run (trace (snd (on_control_msg loads [m] w))) = calls M_run (trace w) + 1
          \<and> calls M_stop (trace (snd (on_control_msg loads [m] w))) = calls M_stop (trace w)
          \<and> calls M_start (trace (snd (on_control_msg loads [m] w))) = calls M_start (trace w)
          \<and> count_list (trace (snd (on_control_msg loads [m] w))) (Assign starting)
              = count_list (trace w) (Assign starting)"
  proof
    assume st: "a = JStr ''start''"
    have b: "on_control_msg_body msg w = run w" "on_control_msg_body msg ?r = run ?r"
      "on_control_msg_body msg ?c = run ?c"
      using st body sids by simp_all
    have l: "on_control_msg_loop loads (m # ms) w = on_control_msg_loop loads ms (snd (run ?r))"
      unfolding loop b using run_returns [of ?r]
      by (cases "run ?r") (simp add: and_then_def)
    have o: "snd (on_control_msg loads [m] w) = emit (RecvString subclient) (snd (run ?c))"
      unfolding one b using run_returns [of ?c]
      by (cases "run ?c") simp
    show "on_control_msg_body msg w = run w
          \<and> calls M_run (trace (snd (on_control_msg_body msg w))) = calls M_run (trace w) + 1
          \<and> calls M_stop (trace (snd (on_control_msg_body msg w))) = calls M_stop (trace w)
          \<and> calls M_start (trace (snd (on_control_msg_body msg w))) = calls M_start (trace w)
          \<and> count_list (trace (snd (on_control_msg_body msg w))) (Assign starting)
              = count_list (trace w) (Assign starting)
          \<and> on_control_msg_loop loads (m # ms) w =
              on_control_msg_loop loads ms (snd (run (emit (RecvString subclient) w)))
          \<and> calls M_run (trace (snd (on_control_msg loads [m] w))) = calls M_run (trace w) + 1
          \<and> calls M_stop (trace (snd (on_control_msg loads [m] w))) = calls M_stop (trace w)
          \<and> calls M_start (trace (snd (on_control_msg loads [m] w))) = calls M_start (trace w)
          \<and> count_list (trace (snd (on_control_msg loads [m] w))) (Assign starting)
              = count_list (trace w) (Assign starting)"
      unfolding o after unfolding b(1) using l run_calls [of w] run_calls [of ?c] c_calls
      by simp
  qed
  have other_case: "a \<noteq> JStr ''stop'' \<and> a \<noteq> JStr ''start'' \<longrightarrow>
            on_control_msg_body msg w = (Returned, w)
          \<and> on_control_msg_loop loads (m # ms) w =
              on_control_msg_loop loads ms (emit (RecvString subclient) w)
          \<and> snd (on_control_msg loads [m] w) = w\<lparr>trace := trace w @
              [Call M_on_control_msg, RecvString subclient, RecvString subclient]\<rparr>"
  proof
    assume st: "a \<noteq> JStr ''stop'' \<and> a \<noteq> JStr ''start''"
    have b: "on_control_msg_body msg w = (Returned, w)"
      "on_control_msg_body msg ?r = (Returned, ?r)"
      "on_control_msg_body msg ?c = (Returned, ?c)"
      using st body sids by simp_all
    show "on_control_msg_body msg w = (Returned, w)
          \<and> on_control_msg_loop loads (m # ms) w =
              on_control_msg_loop loads ms (emit (RecvString subclient) w)
          \<and> snd (on_control_msg loads [m] w) = w\<lparr>trace := trace w @
              [Call M_on_control_msg, RecvString subclient, RecvString subclient]\<rparr>"
      unfolding loop one b by (simp add: and_then_def emit_def)
  qed
  from stop_case start_case other_case show ?thesis
    by (intro conjI)
qed

theorem control_msg_for_self_witness:
  "loads_example ''wire-stop'' = Some (cmd ''servicebase'' ''stop'')
   \<and> getitem (cmd ''servicebase'' ''stop'') ''sid'' = Inr (JStr (sid new_service))
   \<and> getitem (cmd ''servicebase'' ''stop'') ''action'' = Inr (JStr ''stop'')
   \<and> on_control_msg_body (cmd ''servicebase'' ''stop'') new_service = stop new_service
   \<and> calls M_stop (trace (snd (on_control_msg loads_example [''wire-stop''] new_service)))
       = calls M_stop (trace new_service) + 1
   \<and> on_control_msg_body (cmd ''servicebase'' ''start'') new_service = run new_service
   \<and> calls M_run (trace (snd (on_control_msg loads_example [''wire-start''] new_service)))
       = calls M_run (trace new_service) + 1
   \<and> calls M_start (trace (snd (on_control_msg loads_example [''wire-start''] new_service)))
       = calls M_start (trace new_service)
   \<and> on_control_msg_body (cmd ''servicebase'' ''restart'') new_service = (Returned, new_service)"
proof -
  have l: "loads_example ''wire-stop'' = Some (cmd ''servicebase'' ''stop'')"
    "loads_example ''wire-start'' = Some (cmd ''servicebase'' ''start'')"
    "loads_example ''wire-restart'' = Some (cmd ''servicebase'' ''restart'')"
    by (simp_all add: loads_example_def)
  have s: "\<And>a. getitem (cmd ''servicebase'' a) ''sid'' = Inr (JStr (sid new_service))"
    by (simp add: cmd_def new_service_def)
  have a: "\<And>a. getitem (cmd ''servicebase'' a) ''action'' = Inr (JStr a)"
    by (simp add: cmd_def)
  have n: "JStr ''restart'' \<noteq> JStr ''stop''" "JStr ''restart'' \<noteq> JStr ''start''"
    by simp_all
  from control_msg_for_self
         [where loads = loads_example and m = "''wire-stop''" and ms = "[]", OF l(1) s a]
       control_msg_for_self
         [where loads = loads_example and m = "''wire-start''" and ms = "[]", OF l(2) s a]
       control_msg_for_self
         [where loads = loads_example and m = "''wire-restart''" and ms = "[]", OF l(3) s a]
       l s a n
  show ?thesis by auto
qed

text \<open>
  C6. For a control command whose \<^verbatim>\<open>sid\<close> is not this worker's, the iteration
  returns and leaves the whole world as it was: the state field is the same and nothing is
  added to the trace, so no method is entered. The \<^verbatim>\<open>action\<close> entry is not even read.
\<close>

theorem control_msg_for_other:
  assumes "getitem msg ''sid'' = Inr s" and "s \<noteq> JStr (sid w)"
  shows "on_control_msg_body msg w = (Returned, w)"
  using assms by (simp add: on_control_msg_body_def)

theorem control_msg_for_other_witness:
  "getitem (cmd ''feed'' ''stop'') ''sid'' = Inr (JStr ''feed'')
   \<and> JStr ''feed'' \<noteq> JStr (sid new_service)
   \<and> on_control_msg_body (cmd ''feed'' ''stop'') new_service = (Returned, new_service)"
proof -
  have s: "getitem (cmd ''feed'' ''stop'') ''sid'' = Inr (JStr ''feed'')"
    by (simp add: cmd_def)
  have d: "JStr ''feed'' \<noteq> JStr (sid new_service)"
    by (simp add: new_service_def)
  from s d control_msg_for_other [OF s d] show ?thesis by auto
qed

text \<open>
  C7. An iteration of the heartbeat loop for which a reply arrives consumes that one reply
  and goes on from the world \<open>heartbeat_iter\<close> gives, whatever the reply says. In that
  world the dictionary holds the caller's entries with \<^verbatim>\<open>sid\<close>, \<^verbatim>\<open>type\<close> (the
  string \<^verbatim>\<open>heartbeat\<close>) and \<^verbatim>\<open>state\<close> (what \<^verbatim>\<open>status()\<close> gives) stored over
  them, and the iteration has added to the trace, in this order: the send of that
  dictionary serialised, one receive, a sleep of 10. The state field is not changed. When
  no reply arrives the call stays in the receive, after the send and before any sleep.
\<close>

theorem heartbeat_iteration:
  "heartbeat_loop dumps (r # rs) infos w =
     heartbeat_loop dumps rs infos (heartbeat_iter dumps infos w)
   \<and> heartbeat_loop dumps (r # rs) infos w = heartbeat_loop dumps (r' # rs) infos w
   \<and> map_of (heap (heartbeat_iter dumps infos w) infos) =
       (map_of (heap w infos))(''sid'' \<mapsto> JStr (sid w), ''type'' \<mapsto> JStr ''heartbeat'',
                                ''state'' \<mapsto> JStr (status w))
   \<and> trace (heartbeat_iter dumps infos w) = trace w @
       [SendString reqclient (dumps (heap (heartbeat_iter dumps infos w) infos)),
        RecvString reqclient, Sleep 10]
   \<and> state (heartbeat_iter dumps infos w) = state w
   \<and> fst (heartbeat_loop dumps [] infos w) = Blocked
   \<and> trace (snd (heartbeat_loop dumps [] infos w)) = trace w @
       [SendString reqclient (dumps (heap (snd (heartbeat_loop dumps [] infos w)) infos)),
        RecvString reqclient]"
proof -
  have h: "heap (heartbeat_iter dumps infos w) infos =
           dict_update (heap w infos) (heartbeat_fields w)"
    by (simp add: heartbeat_iter_eq)
  have m: "map_of (heap (heartbeat_iter dumps infos w) infos) =
       (map_of (heap w infos))(''sid'' \<mapsto> JStr (sid w), ''type'' \<mapsto> JStr ''heartbeat'',
                                ''state'' \<mapsto> JStr (status w))"
    unfolding h status_def by (rule map_of_heartbeat_fields)
  have t: "trace (heartbeat_iter dumps infos w) = trace w @
       [SendString reqclient (dumps (heap (heartbeat_iter dumps infos w) infos)),
        RecvString reqclient, Sleep 10]"
    unfolding h by (simp add: heartbeat_iter_eq)
  have s: "state (heartbeat_iter dumps infos w) = state w"
    by (simp add: heartbeat_iter_eq)
  have b: "fst (heartbeat_loop dumps [] infos w) = Blocked"
    "trace (snd (heartbeat_loop dumps [] infos w)) = trace w @
       [SendString reqclient (dumps (heap (snd (heartbeat_loop dumps [] infos w)) infos)),
        RecvString reqclient]"
    by (simp_all add: heartbeat_send_eq emit_def)
  show ?thesis
    using m t s b by simp
qed

text \<open>
  C8. Every change of the state field is logged with the new state. This holds for the
  changes made through \<^verbatim>\<open>_set_state\<close>, and so for \<^verbatim>\<open>start()\<close> and \<^verbatim>\<open>stop()\<close>; but
  \<^verbatim>\<open>run()\<close> assigns \<^verbatim>\<open>started\<close> directly, and on a new service it changes the state
  from \<^verbatim>\<open>init\<close> to \<^verbatim>\<open>started\<close> without a single log record.
\<close>

theorem run_assignment_not_logged:
  "state new_service = init
   \<and> state (snd (run new_service)) = started
   \<and> trace (snd (run new_service)) = [Call M_run, Assign started]
   \<and> filter is_log (trace (snd (run new_service))) = []"
  by (simp add: run_def assign_def emit_def new_service_def)

text \<open>
  C9. From \<^verbatim>\<open>stopping\<close>, \<^verbatim>\<open>run()\<close> sets the state to \<^verbatim>\<open>started\<close>, and its result
  is the very result it has when the state is \<^verbatim>\<open>init\<close>, \<^verbatim>\<open>starting\<close> or
  \<^verbatim>\<open>stopped\<close> instead: the guard excludes \<^verbatim>\<open>started\<close> only.
\<close>

theorem run_from_stopping:
  assumes "state w = stopping"
  shows "fst (run w) = Returned
     \<and> state (snd (run w)) = started
     \<and> trace (snd (run w)) = trace w @ [Call M_run, Assign started]
     \<and> run (w\<lparr>state := init\<rparr>) = run w
     \<and> run (w\<lparr>state := starting\<rparr>) = run w
     \<and> run (w\<lparr>state := stopped\<rparr>) = run w"
  using assms by (simp add: run_guard_miss)

theorem run_from_stopping_witness:
  "state (snd (set_state (StateV stopping) new_service)) = stopping
   \<and> fst (run (snd (set_state (StateV stopping) new_service))) = Returned
   \<and> state (snd (run (snd (set_state (StateV stopping) new_service)))) = started"
proof -
  have h: "state (snd (set_state (StateV stopping) new_service)) = stopping"
    by (simp add: set_state_member)
  from h run_from_stopping [OF h] show ?thesis by auto
qed

text \<open>
  C10. \<^verbatim>\<open>heartbeat\<close> changes the caller's dictionary itself. After one iteration, and
  after the call has run through any number of replies, the dictionary behind the
  reference binds \<^verbatim>\<open>sid\<close>, \<^verbatim>\<open>type\<close> and \<^verbatim>\<open>state\<close> to the worker's values, whatever
  the caller had stored under them, and binds every other key as the caller did. Each
  iteration starts from the dictionary the one before left.
\<close>

theorem heartbeat_mutates_infos:
  "map_of (heap (heartbeat_iter dumps infos w) infos) k =
     (if k = ''sid'' then Some (JStr (sid w))
      else if k = ''type'' then Some (JStr ''heartbeat'')
      else if k = ''state'' then Some (JStr (value_of (state w)))
      else map_of (heap w infos) k)
   \<and> map_of (heap (snd (heartbeat dumps rs infos w)) infos) k =
     (if k = ''sid'' then Some (JStr (sid w))
      else if k = ''type'' then Some (JStr ''heartbeat'')
      else if k = ''state'' then Some (JStr (value_of (state w)))
      else map_of (heap w infos) k)
   \<and> heartbeat_loop dumps (r # rs) infos w =
       heartbeat_loop dumps rs infos (heartbeat_iter dumps infos w)"
proof -
  have h: "heap (heartbeat_iter dumps infos w) infos =
           dict_update (heap w infos) (heartbeat_fields w)"
    by (simp add: heartbeat_iter_eq)
  have e: "state (emit (Call M_heartbeat) w) = state w"
    "sid (emit (Call M_heartbeat) w) = sid w"
    "heap (emit (Call M_heartbeat) w) = heap w"
    by (simp_all add: emit_def)
  show ?thesis
    unfolding h heartbeat_def heartbeat_loop_heap map_of_heartbeat_fields e
    by simp
qed

end
